theory Spec2Isabelle
  imports Main "HOL-Library.Word"
begin

section \<open>The Timer of include/timer.h\<close>

text \<open>
  The class \<^verbatim>\<open>Splash::Timer\<close> is embedded as a record of its private members and one
  function for each public method, taking the timer and returning the updated timer
  together with the method's result.

  \<^item> Every value of the two maps is a \<^verbatim>\<open>std::atomic_ullong\<close>: a 64-bit word. The reading of
    \<^verbatim>\<open>steady_clock\<close>, in microseconds, is an argument of each method that takes one; it is
    stored into an unsigned 64-bit slot and subtracted there, so it is a 64-bit word too, and
    \<^verbatim>\<open>currentTime - timeIt->second\<close> wraps as the unsigned subtraction does.
  \<^item> The calling thread (\<^verbatim>\<open>std::this_thread::get_id()\<close>) is an argument of the two methods
    that read it.
  \<^item> The call of \<^verbatim>\<open>nanosleep\<close> is returned as a value: the \<^verbatim>\<open>timespec\<close> it was given, or
    \<^verbatim>\<open>None\<close> when the method returned before reaching it.
  \<^item> Undefined behaviour of the C++ (a signed overflow, a conversion of a double that does
    not fit, an index out of range) is a value of the type \<open>fault\<close>.
\<close>

subsection \<open>Data\<close>

type_synonym ullong = "64 word"

text \<open>
  Modelled from the spec: \<^verbatim>\<open>Value\<close> and \<^verbatim>\<open>Values\<close> are declared in coretypes.h, which is not
  among the sources. The spec describes the master clock as an ordered sequence of numeric
  fields, and the decoder reads every field with \<^verbatim>\<open>as<int>()\<close>: a field is the 32-bit
  \<^verbatim>\<open>int\<close> it converts to, read as a signed number by \<open>as_int\<close>.
\<close>

type_synonym Value = "32 word"
type_synonym Values = "Value list"

definition as_int :: "Value \<Rightarrow> int" where
  "as_int v = sint v"

text \<open>
  \<^verbatim>\<open>std::thread::id\<close>: a default-constructed one stands for no thread, and the identity of a
  running thread is never equal to it.
\<close>

datatype thread_id = NoThread | Thread nat

text \<open>
  Modelled from the spec: \<^verbatim>\<open>Spinlock\<close> is declared in coretypes.h, which is not among the
  sources. It is a mutual-exclusion lock: \<open>timerMutex\<close> is \<open>True\<close> while it is held.
  \<^verbatim>\<open>_clockMutex\<close> is only ever taken and released inside one method, so it is free between
  any two calls and is left out of the record.
\<close>

record Timer =
  timeMap :: "string \<rightharpoonup> ullong"
  durationMap :: "string \<rightharpoonup> ullong"
  currentDuration :: ullong
  isDurationSet :: bool
  durationThreadId :: thread_id
  timerMutex :: bool
  enabled :: bool
  isDebug :: bool
  clock :: Values

text \<open>The private constructor with the default member initialisers.\<close>

definition Timer_init :: Timer where
  "Timer_init =
     \<lparr>timeMap = Map.empty, durationMap = Map.empty, currentDuration = 0,
      isDurationSet = False, durationThreadId = NoThread, timerMutex = False,
      enabled = True, isDebug = False, clock = []\<rparr>"

datatype fault = SignedOverflow | ConversionOutOfRange | IndexOutOfRange

record timespec =
  tv_sec :: int
  tv_nsec :: int

text \<open>
  The idiom of every writer of a map: \<^verbatim>\<open>find\<close>, then insert through \<^verbatim>\<open>operator[]\<close> when the
  name is absent and assign through the iterator when it is present.
\<close>

definition store :: "(string \<rightharpoonup> ullong) \<Rightarrow> string \<Rightarrow> ullong \<Rightarrow> (string \<rightharpoonup> ullong)" where
  "store m name v = (case m name of None \<Rightarrow> m(name \<mapsto> v) | Some old \<Rightarrow> m(name \<mapsto> v))"

subsection \<open>The conversion to nanoseconds\<close>

text \<open>
  \<^verbatim>\<open>nap.tv_nsec = (duration - elapsed) * 1e3\<close> converts the unsigned difference to a
  double, multiplies it by the double 1000 and converts the product to \<^verbatim>\<open>long\<close>. A double
  that is a non-negative whole number is modelled by that number; \<open>round53\<close> rounds a
  natural number to the nearest one with a significand of 53 bits, ties to even, which is
  what the conversion and the multiplication do.
\<close>

fun bit_length :: "nat \<Rightarrow> nat" where
  "bit_length n = (if n = 0 then 0 else Suc (bit_length (n div 2)))"

declare bit_length.simps [simp del]

definition round53 :: "nat \<Rightarrow> nat" where
  "round53 n =
     (let e = bit_length n - 53 in
      if e = 0 then n
      else
        let q = n div 2 ^ e; r = n mod 2 ^ e; h = 2 ^ (e - 1) in
        if h < r \<or> (r = h \<and> odd q) then (q + 1) * 2 ^ e else q * 2 ^ e)"

definition ull_to_double :: "ullong \<Rightarrow> nat" where
  "ull_to_double x = round53 (unat x)"

definition double_mul :: "nat \<Rightarrow> nat \<Rightarrow> nat" where
  "double_mul a b = round53 (a * b)"

text \<open>The conversion of a double to \<^verbatim>\<open>long\<close> is undefined when the value does not fit.\<close>

definition double_to_long :: "nat \<Rightarrow> int option" where
  "double_to_long a = (if a < 2 ^ 63 then Some (int a) else None)"

text \<open>
  \<^verbatim>\<open>nanosleep\<close> is the POSIX primitive, not code of the repository: it fails with
  \<^verbatim>\<open>EINVAL\<close>, without suspending the caller, when \<^verbatim>\<open>tv_nsec\<close> is not in the range 0 to
  999999999 or \<^verbatim>\<open>tv_sec\<close> is negative, and otherwise suspends it for the interval. The
  result is the return code and the nanoseconds of suspension asked for.
\<close>

definition nanosleep :: "timespec \<Rightarrow> int \<times> nat" where
  "nanosleep req =
     (if tv_sec req < 0 \<or> tv_nsec req < 0 \<or> 999999999 < tv_nsec req then (- 1, 0)
      else (0, nat (tv_sec req * 1000000000 + tv_nsec req)))"

text \<open>The nanoseconds a method suspends its caller for, from the call it made, if any.\<close>

definition slept :: "timespec option \<Rightarrow> nat" where
  "slept call = (case call of None \<Rightarrow> 0 | Some req \<Rightarrow> snd (nanosleep req))"

subsection \<open>Measuring\<close>

definition setDebug :: "Timer \<Rightarrow> bool \<Rightarrow> Timer" where
  "setDebug s d = s\<lparr>isDebug := d\<rparr>"

definition setStatus :: "Timer \<Rightarrow> bool \<Rightarrow> Timer" where
  "setStatus s e = s\<lparr>enabled := e\<rparr>"

definition start :: "Timer \<Rightarrow> string \<Rightarrow> ullong \<Rightarrow> Timer" where
  "start s name currentTime =
     (if \<not> enabled s then s
      else s\<lparr>timeMap := store (timeMap s) name currentTime\<rparr>)"

definition stop :: "Timer \<Rightarrow> string \<Rightarrow> ullong \<Rightarrow> Timer" where
  "stop s name currentTime =
     (if \<not> enabled s then s
      else case timeMap s name of
        None \<Rightarrow> s
      | Some t0 \<Rightarrow> s\<lparr>durationMap := store (durationMap s) name (currentTime - t0)\<rparr>)"

text \<open>
  The result of \<open>waitUntilDuration\<close> is the timer, the returned flag and the call of
  \<^verbatim>\<open>nanosleep\<close>.
\<close>

definition waitUntilDuration ::
  "Timer \<Rightarrow> string \<Rightarrow> ullong \<Rightarrow> ullong \<Rightarrow> fault + (Timer \<times> bool \<times> timespec option)" where
  "waitUntilDuration s name duration currentTime =
     (if \<not> enabled s then Inr (s, False, None)
      else case timeMap s name of
        None \<Rightarrow> Inr (s, False, None)
      | Some t0 \<Rightarrow>
          let elapsed = currentTime - t0;
              s' = s\<lparr>durationMap := store (durationMap s) name (max duration elapsed)\<rparr>
          in
          if elapsed < duration then
            (case double_to_long (double_mul (ull_to_double (duration - elapsed)) 1000) of
               None \<Rightarrow> Inl ConversionOutOfRange
             | Some ns \<Rightarrow> Inr (s', False, Some \<lparr>tv_sec = 0, tv_nsec = ns\<rparr>))
          else Inr (s', True, Some \<lparr>tv_sec = 0, tv_nsec = 0\<rparr>))"

definition getDuration :: "Timer \<Rightarrow> string \<Rightarrow> ullong" where
  "getDuration s name = (case durationMap s name of None \<Rightarrow> 0 | Some d \<Rightarrow> d)"

definition setDuration :: "Timer \<Rightarrow> string \<Rightarrow> ullong \<Rightarrow> Timer" where
  "setDuration s name v = s\<lparr>durationMap := store (durationMap s) name v\<rparr>"

text \<open>
  \<open>sinceLastSeen\<close> reads the clock in \<open>stop\<close> and again in \<open>start\<close>: \<open>t1\<close> is the first
  reading of the call and \<open>t2\<close> the second.
\<close>

definition sinceLastSeen :: "Timer \<Rightarrow> string \<Rightarrow> ullong \<Rightarrow> ullong \<Rightarrow> Timer \<times> ullong" where
  "sinceLastSeen s name t1 t2 =
     (case timeMap s name of
        None \<Rightarrow> (start s name t1, 0)
      | Some t0 \<Rightarrow>
          let s1 = stop s name t1;
              duration = getDuration s1 name
          in (start s1 name t2, duration))"

subsection \<open>The stream operators\<close>

text \<open>\<^verbatim>\<open>operator<<(const std::string&)\<close>\<close>

definition op_lshift :: "Timer \<Rightarrow> string \<Rightarrow> ullong \<Rightarrow> Timer" where
  "op_lshift s name currentTime = (start s name currentTime)\<lparr>currentDuration := 0\<rparr>"

text \<open>
  \<^verbatim>\<open>operator>>(unsigned long long)\<close>, called by thread \<open>tid\<close>. It starts by taking
  \<^verbatim>\<open>_timerMutex\<close>, and does not return while the lock is held: \<open>None\<close>.
\<close>

definition op_rshift_value :: "Timer \<Rightarrow> nat \<Rightarrow> ullong \<Rightarrow> Timer option" where
  "op_rshift_value s tid duration =
     (if timerMutex s then None
      else Some (s\<lparr>timerMutex := True, currentDuration := duration,
                   durationThreadId := Thread tid, isDurationSet := True\<rparr>))"

text \<open>\<^verbatim>\<open>operator>>(const std::string&)\<close>, called by thread \<open>tid\<close>.\<close>

definition op_rshift_name ::
  "Timer \<Rightarrow> nat \<Rightarrow> string \<Rightarrow> ullong \<Rightarrow> fault + (Timer \<times> bool \<times> timespec option)" where
  "op_rshift_name s tid name currentTime =
     (let (s1, duration) =
        (if isDurationSet s \<and> durationThreadId s = Thread tid
         then (s\<lparr>isDurationSet := False, currentDuration := 0, timerMutex := False\<rparr>,
               currentDuration s)
         else (s, 0))
      in
      if 0 < duration then waitUntilDuration s1 name duration currentTime
      else Inr (stop s1 name currentTime, False, None))"

subsection \<open>The master clock\<close>

definition setMasterClock :: "Timer \<Rightarrow> Values \<Rightarrow> Timer" where
  "setMasterClock s c = (if length c = 8 then s\<lparr>clock := c\<rparr> else s)"

text \<open>
  \<^verbatim>\<open>getMasterClock(Values&)\<close>: the argument \<open>out\<close> is the caller's sequence before the call,
  the result is that sequence after the call and the returned flag.
\<close>

definition getMasterClock :: "Timer \<Rightarrow> Values \<Rightarrow> Values \<times> bool" where
  "getMasterClock s out = (if 0 < length (clock s) then (clock s, True) else (out, False))"

text \<open>
  The arithmetic of the decoder is that of \<^verbatim>\<open>long long\<close> and \<^verbatim>\<open>int64_t\<close>: a result outside
  the 64-bit signed range is undefined, and \<^verbatim>\<open>/\<close> truncates towards zero.
\<close>

definition in_int64 :: "int \<Rightarrow> bool" where
  "in_int64 x \<longleftrightarrow> - (2 ^ 63) \<le> x \<and> x < 2 ^ 63"

definition checked :: "int \<Rightarrow> fault + int" where
  "checked x = (if in_int64 x then Inr x else Inl SignedOverflow)"

definition cdiv :: "int \<Rightarrow> int \<Rightarrow> int" where
  "cdiv a b = sgn a * sgn b * (\<bar>a\<bar> div \<bar>b\<bar>)"

text \<open>
  The template argument \<^verbatim>\<open>T\<close>: the integer durations of \<^verbatim>\<open>std::chrono\<close>, and
  \<^verbatim>\<open>duration_cast<T>\<close> from microseconds to each of them.
\<close>

datatype chrono_unit = Nanoseconds | Microseconds | Milliseconds | Seconds | Minutes | Hours

fun duration_cast :: "chrono_unit \<Rightarrow> int \<Rightarrow> fault + int" where
  "duration_cast Nanoseconds us = checked (us * 1000)"
| "duration_cast Microseconds us = Inr us"
| "duration_cast Milliseconds us = Inr (cdiv us 1000)"
| "duration_cast Seconds us = Inr (cdiv us 1000000)"
| "duration_cast Minutes us = Inr (cdiv us 60000000)"
| "duration_cast Hours us = Inr (cdiv us 3600000000)"

text \<open>
  The frame count of a clock of eight fields. Every field is a 32-bit \<^verbatim>\<open>int\<close>, widened to
  \<^verbatim>\<open>long long\<close> by the constants \<^verbatim>\<open>24ll\<close>, \<^verbatim>\<open>60ll\<close> and \<^verbatim>\<open>120ll\<close>; no step of this sum
  leaves the 64-bit range (lemma \<open>frames_in_int64\<close> below), so it is written on \<open>int\<close>.
\<close>

definition frames :: "Values \<Rightarrow> int" where
  "frames c =
     as_int (c ! 6) +
     (as_int (c ! 5) + (as_int (c ! 4) + (as_int (c ! 3) + as_int (c ! 2) * 24) * 60) * 60) * 120"

text \<open>
  \<^verbatim>\<open>getMasterClock<T>(int64_t& time, bool& paused)\<close>: \<open>time\<close> and \<open>paused\<close> are the caller's
  variables before the call; the result is the two variables after the call and the
  returned flag. The method indexes the stored sequence up to 7 whenever it is not empty.
\<close>

definition getMasterClockT ::
  "chrono_unit \<Rightarrow> Timer \<Rightarrow> int \<Rightarrow> bool \<Rightarrow> fault + (int \<times> bool \<times> bool)" where
  "getMasterClockT T s time paused =
     (if length (clock s) = 0 then Inr (time, True, False)
      else if length (clock s) < 8 then Inl IndexOutOfRange
      else
        case checked (frames (clock s) * 1000000) of
          Inl f \<Rightarrow> Inl f
        | Inr p \<Rightarrow>
            (case duration_cast T (cdiv p 120) of
               Inl f \<Rightarrow> Inl f
             | Inr t \<Rightarrow> Inr (t, as_int (clock s ! 7) \<noteq> 0, True)))"

subsection \<open>The states a program can bring the timer to\<close>

text \<open>
  A call of \<open>stop\<close>, \<open>waitUntilDuration\<close>, \<open>sinceLastSeen\<close> or \<^verbatim>\<open>operator>>\<close> with a name
  completes a measurement of that name when the timer is enabled and the name has a start
  timestamp: these are the states in which the call writes a duration.
\<close>

definition completes :: "Timer \<Rightarrow> string \<Rightarrow> bool" where
  "completes s name \<longleftrightarrow> enabled s \<and> timeMap s name \<noteq> None"

text \<open>
  The timer is a singleton with a private constructor, so every state of it comes from
  \<open>Timer_init\<close> by calls of the public methods, with any arguments, clock readings and
  calling threads. Completing a measurement and setting a duration are restricted to the
  names that satisfy \<open>W\<close>: \<open>reach (\<lambda>n. True)\<close> holds of every state a program can reach,
  and \<open>reach (\<lambda>n. n \<noteq> name)\<close> of every state reached without completing a measurement
  of \<open>name\<close> or setting a duration for it. The methods that change nothing
  (\<open>getDuration\<close>, \<open>isDebug\<close>, the two getters of the master clock) add no state.
\<close>

inductive reach :: "(string \<Rightarrow> bool) \<Rightarrow> Timer \<Rightarrow> bool" for W :: "string \<Rightarrow> bool" where
  r_init: "reach W Timer_init"
| r_setDebug: "reach W s \<Longrightarrow> reach W (setDebug s d)"
| r_setStatus: "reach W s \<Longrightarrow> reach W (setStatus s e)"
| r_start: "reach W s \<Longrightarrow> reach W (start s n t)"
| r_stop: "reach W s \<Longrightarrow> W n \<or> \<not> completes s n \<Longrightarrow> reach W (stop s n t)"
| r_wait: "reach W s \<Longrightarrow> W n \<or> \<not> completes s n \<Longrightarrow>
    waitUntilDuration s n d t = Inr (s', r) \<Longrightarrow> reach W s'"
| r_setDuration: "reach W s \<Longrightarrow> W n \<Longrightarrow> reach W (setDuration s n v)"
| r_sinceLastSeen: "reach W s \<Longrightarrow> W n \<or> \<not> completes s n \<Longrightarrow>
    reach W (fst (sinceLastSeen s n t1 t2))"
| r_lshift: "reach W s \<Longrightarrow> reach W (op_lshift s n t)"
| r_rshift_value: "reach W s \<Longrightarrow> op_rshift_value s tid d = Some s' \<Longrightarrow> reach W s'"
| r_rshift_name: "reach W s \<Longrightarrow> W n \<or> \<not> completes s n \<Longrightarrow>
    op_rshift_name s tid n t = Inr (s', r) \<Longrightarrow> reach W s'"
| r_setMasterClock: "reach W s \<Longrightarrow> reach W (setMasterClock s c)"

subsection \<open>The specification's formulas\<close>

text \<open>
  The frame count and the microseconds as the specification writes them, on unbounded
  integers, from the fields 2 to 6 of the clock.
\<close>

definition frame_count_spec :: "int \<Rightarrow> int \<Rightarrow> int \<Rightarrow> int \<Rightarrow> int \<Rightarrow> int" where
  "frame_count_spec f2 f3 f4 f5 f6 = f6 + 120 * (f5 + 60 * (f4 + 60 * (f3 + 24 * f2)))"

definition microseconds_spec :: "int \<Rightarrow> int" where
  "microseconds_spec fr = cdiv (fr * 1000000) 120"

text \<open>
  \<open>sinceLastSeen\<close> as the specification describes it: \<open>start\<close> and 0 for a name with no
  start timestamp, otherwise \<open>stop\<close>, then \<open>start\<close>, and the time elapsed since the
  timestamp.
\<close>

definition sinceLastSeen_spec :: "Timer \<Rightarrow> string \<Rightarrow> ullong \<Rightarrow> ullong \<Rightarrow> Timer \<times> ullong" where
  "sinceLastSeen_spec s name t1 t2 =
     (case timeMap s name of
        None \<Rightarrow> (start s name t1, 0)
      | Some t0 \<Rightarrow> (start (stop s name t1) name t2, t1 - t0))"

section \<open>Properties\<close>

subsection \<open>Facts used by several proofs\<close>

lemma store_eq: "store m name v = m(name \<mapsto> v)"
  by (simp add: store_def split: option.split)

text \<open>A number below \<open>2 ^ 53\<close> is a double: neither conversion nor product rounds it.\<close>

lemma bit_length_le: "n < 2 ^ k \<Longrightarrow> bit_length n \<le> k"
proof (induction k arbitrary: n)
  case 0
  then show ?case by (simp add: bit_length.simps)
next
  case (Suc k)
  show ?case
  proof (cases "n = 0")
    case True
    then show ?thesis by (simp add: bit_length.simps)
  next
    case False
    from Suc.prems have "n div 2 < 2 ^ k" by simp
    then have "bit_length (n div 2) \<le> k" by (rule Suc.IH)
    with False show ?thesis by (simp add: bit_length.simps [of n])
  qed
qed

lemma round53_exact: "n < 2 ^ 53 \<Longrightarrow> round53 n = n"
  using bit_length_le [of n 53] by (simp add: round53_def)

lemma nap_exact:
  assumes "unat x < 2 ^ 43"
  shows "double_to_long (double_mul (ull_to_double x) 1000) = Some (int (unat x) * 1000)"
proof -
  from assms have a: "unat x < 2 ^ 53" by simp
  from assms have "unat x * 1000 < 2 ^ 43 * 2 ^ 10" by simp
  then have b: "unat x * 1000 < 2 ^ 53" by simp
  from a b show ?thesis
    by (simp add: double_to_long_def double_mul_def ull_to_double_def round53_exact)
qed

text \<open>What each method leaves alone: the master clock, and the durations of other names.\<close>

lemma start_frame:
  "clock (start s n t) = clock s" "durationMap (start s n t) = durationMap s"
  by (auto simp: start_def)

lemma stop_frame:
  "clock (stop s n t) = clock s"
  "n \<noteq> name \<or> \<not> completes s n \<Longrightarrow> durationMap (stop s n t) name = durationMap s name"
  by (auto simp: stop_def store_eq completes_def split: option.splits)

lemma wait_frame:
  assumes "waitUntilDuration s n d t = Inr (s', r)"
  shows "clock s' = clock s"
    and "n \<noteq> name \<or> \<not> completes s n \<Longrightarrow> durationMap s' name = durationMap s name"
  using assms
  by (auto simp: waitUntilDuration_def Let_def store_eq completes_def
      split: if_splits option.splits)

lemma sinceLastSeen_frame:
  "clock (fst (sinceLastSeen s n t1 t2)) = clock s"
  "n \<noteq> name \<or> \<not> completes s n \<Longrightarrow>
     durationMap (fst (sinceLastSeen s n t1 t2)) name = durationMap s name"
  by (auto simp: sinceLastSeen_def Let_def start_frame stop_frame split: option.split)

lemma rshift_name_frame:
  assumes "op_rshift_name s tid n t = Inr (s', r)"
  shows "clock s' = clock s"
    and "n \<noteq> name \<or> \<not> completes s n \<Longrightarrow> durationMap s' name = durationMap s name"
proof -
  let ?s1 = "s\<lparr>isDurationSet := False, currentDuration := 0, timerMutex := False\<rparr>"
  have c1: "completes ?s1 n = completes s n"
    by (simp add: completes_def)
  from assms consider
      (wait) d where "waitUntilDuration ?s1 n d t = Inr (s', r)"
    | (stop1) "s' = stop ?s1 n t"
    | (stop0) "s' = stop s n t"
    by (auto simp: op_rshift_name_def split: if_splits)
  then show "clock s' = clock s"
  proof cases
    case wait
    then show ?thesis by (simp add: wait_frame(1))
  next
    case stop1
    then show ?thesis by (simp add: stop_frame(1))
  next
    case stop0
    then show ?thesis by (simp add: stop_frame(1))
  qed
  assume other: "n \<noteq> name \<or> \<not> completes s n"
  then have other1: "n \<noteq> name \<or> \<not> completes ?s1 n"
    by (simp add: c1)
  from assms consider
      (wait) d where "waitUntilDuration ?s1 n d t = Inr (s', r)"
    | (stop1) "s' = stop ?s1 n t"
    | (stop0) "s' = stop s n t"
    by (auto simp: op_rshift_name_def split: if_splits)
  then show "durationMap s' name = durationMap s name"
  proof cases
    case wait
    from wait_frame(2) [OF wait other1] show ?thesis by simp
  next
    case stop1
    with stop_frame(2) [OF other1] show ?thesis by simp
  next
    case stop0
    with stop_frame(2) [OF other] show ?thesis by simp
  qed
qed

subsection \<open>Measuring and pacing\<close>

text \<open>
  What \<open>waitUntilDuration\<close> does in an enabled timer, branch by branch. With no start
  timestamp it returns false before it reaches \<^verbatim>\<open>nanosleep\<close> and writes no duration.
\<close>

lemma waitUntilDuration_unarmed:
  assumes "enabled s" and "timeMap s name = None"
  shows "waitUntilDuration s name d t = Inr (s, False, None)"
  using assms by (simp add: waitUntilDuration_def)

text \<open>
  Once the target is reached it records the elapsed time, which is the maximum, asks
  \<^verbatim>\<open>nanosleep\<close> for an interval of zero and returns true.
\<close>

lemma waitUntilDuration_overtime:
  assumes "enabled s" and "timeMap s name = Some t0" and "\<not> t - t0 < d"
  shows "waitUntilDuration s name d t =
           Inr (s\<lparr>durationMap := (durationMap s)(name \<mapsto> t - t0)\<rparr>, True,
                Some \<lparr>tv_sec = 0, tv_nsec = 0\<rparr>)"
    and "slept (Some \<lparr>tv_sec = 0, tv_nsec = 0\<rparr>) = 0"
  using assms
  by (simp_all add: waitUntilDuration_def Let_def store_eq max_def slept_def nanosleep_def)

text \<open>
  Before the target is reached, and with less than a second left, it records the target,
  suspends the caller for exactly the microseconds left, in nanoseconds, and returns false.
\<close>

lemma slept_nap:
  assumes "n < 1000000"
  shows "slept (Some \<lparr>tv_sec = 0, tv_nsec = int n * 1000\<rparr>) = n * 1000"
  using assms by (simp add: slept_def nanosleep_def nat_mult_distrib)

lemma waitUntilDuration_nap:
  assumes "enabled s" and "timeMap s name = Some t0" and "t - t0 < d"
    and "unat (d - (t - t0)) < 1000000"
  shows "waitUntilDuration s name d t =
           Inr (s\<lparr>durationMap := (durationMap s)(name \<mapsto> d)\<rparr>, False,
                Some \<lparr>tv_sec = 0, tv_nsec = int (unat (d - (t - t0))) * 1000\<rparr>)"
    and "slept (Some \<lparr>tv_sec = 0, tv_nsec = int (unat (d - (t - t0))) * 1000\<rparr>) =
           unat (d - (t - t0)) * 1000"
proof -
  from assms(4) have "unat (d - (t - t0)) < 2 ^ 43" by simp
  then have n: "double_to_long (double_mul (ull_to_double (d - (t - t0))) 1000) =
      Some (int (unat (d - (t - t0))) * 1000)"
    by (rule nap_exact)
  from assms(3) have "t - t0 \<le> d" by (rule less_imp_le)
  then have m: "max d (t - t0) = d" by (rule max.absorb1)
  from assms(1,2,3) n m show "waitUntilDuration s name d t =
           Inr (s\<lparr>durationMap := (durationMap s)(name \<mapsto> d)\<rparr>, False,
                Some \<lparr>tv_sec = 0, tv_nsec = int (unat (d - (t - t0))) * 1000\<rparr>)"
    by (simp add: waitUntilDuration_def Let_def store_eq)
  from assms(4) show "slept (Some \<lparr>tv_sec = 0, tv_nsec = int (unat (d - (t - t0))) * 1000\<rparr>) =
           unat (d - (t - t0)) * 1000"
    by (rule slept_nap)
qed

text \<open>
  With a second or more left, the nanoseconds do not fit \<^verbatim>\<open>tv_nsec\<close>, whose field
  \<^verbatim>\<open>tv_sec\<close> the method always leaves at 0: rounding a number to a double never takes it
  below a double that it reaches, so the request is a thousand million nanoseconds or more,
  \<^verbatim>\<open>nanosleep\<close> refuses it and the caller is not suspended at all.
\<close>

lemma bit_length_lower: "n \<noteq> 0 \<Longrightarrow> 2 ^ (bit_length n - 1) \<le> n"
proof (induction n rule: bit_length.induct)
  case (1 n)
  show ?case
  proof (cases "n div 2 = 0")
    case True
    with "1.prems" have "bit_length n = 1"
      by (simp add: bit_length.simps [of n] bit_length.simps [of 0])
    with "1.prems" show ?thesis by simp
  next
    case False
    with "1.IH" "1.prems" have ih: "2 ^ (bit_length (n div 2) - 1) \<le> n div 2" by simp
    from False have pos: "0 < bit_length (n div 2)"
      by (simp add: bit_length.simps [of "n div 2"])
    from "1.prems" have "bit_length n - 1 = Suc (bit_length (n div 2) - 1)"
      using pos by (simp add: bit_length.simps [of n])
    then have "(2::nat) ^ (bit_length n - 1) = 2 * 2 ^ (bit_length (n div 2) - 1)" by simp
    also from ih have "\<dots> \<le> 2 * (n div 2)" by simp
    also have "\<dots> \<le> n" by simp
    finally show ?thesis .
  qed
qed

lemma round53_lower:
  assumes "k \<le> n" and "k \<le> 2 ^ 53"
  shows "k \<le> round53 n"
proof (cases "bit_length n \<le> 53")
  case True
  with assms(1) show ?thesis by (simp add: round53_def)
next
  case False
  define e where "e = bit_length n - 53"
  from False have e: "0 < e" and bl: "bit_length n - 1 = 52 + e" by (simp_all add: e_def)
  have "bit_length 0 = 0" by (simp add: bit_length.simps)
  with False have "n \<noteq> 0" by (cases "n = 0") simp_all
  then have "2 ^ (bit_length n - 1) \<le> n" by (rule bit_length_lower)
  then have "2 ^ (52 + e) \<le> n" unfolding bl .
  then have "2 ^ (52 + e) div 2 ^ e \<le> n div 2 ^ e" by (rule div_le_mono)
  then have q: "(2::nat) ^ 52 \<le> n div 2 ^ e" by (simp add: power_add)
  then have "(2::nat) ^ 52 * 2 ^ e \<le> (n div 2 ^ e) * 2 ^ e" by (rule mult_le_mono1)
  moreover from e have "(2::nat) ^ 53 \<le> 2 ^ 52 * 2 ^ e"
    using one_le_power [of "2::nat" "e - 1"] by (cases e) simp_all
  ultimately have low: "(2::nat) ^ 53 \<le> (n div 2 ^ e) * 2 ^ e" by (rule order_trans [rotated])
  have "(n div 2 ^ e) * 2 ^ e \<le> round53 n"
    using e by (simp add: round53_def e_def [symmetric] Let_def)
  with low assms(2) show ?thesis by linarith
qed

lemma nap_invalid:
  assumes "1000000 \<le> unat x"
  shows "case double_to_long (double_mul (ull_to_double x) 1000) of
           None \<Rightarrow> True | Some ns \<Rightarrow> 999999999 < ns"
proof -
  have "1000000 \<le> ull_to_double x"
    unfolding ull_to_double_def using assms by (rule round53_lower) simp
  then have "1000000 * 1000 \<le> ull_to_double x * 1000" by (rule mult_le_mono1)
  then have "1000000000 \<le> ull_to_double x * 1000" by simp
  then have "1000000000 \<le> double_mul (ull_to_double x) 1000"
    unfolding double_mul_def by (rule round53_lower) simp
  then show ?thesis by (simp add: double_to_long_def)
qed

lemma waitUntilDuration_no_nap:
  assumes "enabled s" and "timeMap s name = Some t0" and "t - t0 < d"
    and "1000000 \<le> unat (d - (t - t0))"
  shows "case waitUntilDuration s name d t of
           Inl f \<Rightarrow> f = ConversionOutOfRange
         | Inr (s', overtime, call) \<Rightarrow> overtime = False \<and> slept call = 0"
proof (cases "double_to_long (double_mul (ull_to_double (d - (t - t0))) 1000)")
  case None
  with assms(1,2,3) show ?thesis by (simp add: waitUntilDuration_def Let_def)
next
  case (Some ns)
  with nap_invalid [OF assms(4)] have "999999999 < ns" by simp
  with Some assms(1,2,3) show ?thesis
    by (simp add: waitUntilDuration_def Let_def slept_def nanosleep_def)
qed

text \<open>
  Claim C2. The claim holds of a name with no start timestamp, of the branch that has
  reached the target, of the duration recorded, and of a remaining time below one second.
  It fails when a second or more is left. Here the timer is started at time 0 and
  \<open>waitUntilDuration\<close> is called at once with a target of two seconds: the elapsed time
  is 0, the method records the target and returns false, and it calls \<^verbatim>\<open>nanosleep\<close> with
  \<^verbatim>\<open>tv_sec = 0\<close> and \<^verbatim>\<open>tv_nsec = 2000000000\<close>, which is out of range: the primitive
  returns -1 and the caller is suspended for 0 nanoseconds, not for two seconds.
\<close>

theorem waitUntilDuration_two_seconds:
  "waitUntilDuration (start Timer_init ''frame'' 0) ''frame'' 2000000 0 =
     Inr ((start Timer_init ''frame'' 0)\<lparr>durationMap := [''frame'' \<mapsto> 2000000]\<rparr>, False,
          Some \<lparr>tv_sec = 0, tv_nsec = 2000000000\<rparr>) \<and>
   nanosleep \<lparr>tv_sec = 0, tv_nsec = 2000000000\<rparr> = (- 1, 0) \<and>
   slept (Some \<lparr>tv_sec = 0, tv_nsec = 2000000000\<rparr>) = 0"
proof -
  have "unat (2000000 :: ullong) < 2 ^ 43" by simp
  then have "double_to_long (double_mul (ull_to_double (2000000 :: ullong)) 1000) =
      Some (int (unat (2000000 :: ullong)) * 1000)"
    by (rule nap_exact)
  then have n: "double_to_long (double_mul (ull_to_double (2000000 :: ullong)) 1000) =
      Some 2000000000"
    by simp
  show ?thesis
    by (simp add: waitUntilDuration_def start_def Timer_init_def store_eq Let_def n
        nanosleep_def slept_def)
qed

text \<open>
  Claim C8, amended. In an enabled timer \<open>sinceLastSeen\<close> is what the specification
  describes: \<open>start\<close> and 0 for a name with no start timestamp, otherwise \<open>stop\<close>
  followed by \<open>start\<close>, returning the time elapsed since the timestamp. In a disabled
  timer \<open>stop\<close> and \<open>start\<close> do nothing: the timer is unchanged and the result is 0 for a
  name with no start timestamp and otherwise the duration last recorded for the name. In
  every state the timer it leaves is the one the specification describes.
\<close>

theorem sinceLastSeen_refines:
  "sinceLastSeen s name t1 t2 =
     (if enabled s then sinceLastSeen_spec s name t1 t2
      else (s, case timeMap s name of None \<Rightarrow> 0 | Some t0 \<Rightarrow> getDuration s name)) \<and>
   fst (sinceLastSeen s name t1 t2) = fst (sinceLastSeen_spec s name t1 t2)"
  by (simp add: sinceLastSeen_def sinceLastSeen_spec_def start_def stop_def getDuration_def
      store_eq Let_def split: option.split)

theorem sinceLastSeen_refines_witness:
  "enabled (start Timer_init ''tick'' 5) \<and>
   sinceLastSeen (start Timer_init ''tick'' 5) ''tick'' 100 101 =
     (Timer_init\<lparr>timeMap := [''tick'' \<mapsto> 101], durationMap := [''tick'' \<mapsto> 95]\<rparr>, 95) \<and>
   sinceLastSeen Timer_init ''tick'' 5 6 = (Timer_init\<lparr>timeMap := [''tick'' \<mapsto> 5]\<rparr>, 0)"
  using sinceLastSeen_refines [of "start Timer_init ''tick'' 5" "''tick''" 100 101]
    sinceLastSeen_refines [of Timer_init "''tick''" 5 6]
  by (simp add: sinceLastSeen_spec_def start_def stop_def store_eq Timer_init_def)

text \<open>
  The claim as it is written fails in a disabled timer. A first call at time 5 arms the
  name, the timer is disabled, and a second call comes at time 100: the time elapsed since
  the previous call is 95, \<open>stop\<close> records nothing, and the call returns 0.
\<close>

theorem sinceLastSeen_disabled_stale:
  "snd (sinceLastSeen (setStatus (fst (sinceLastSeen Timer_init ''tick'' 5 5)) False)
          ''tick'' 100 100) = 0 \<and>
   snd (sinceLastSeen_spec (setStatus (fst (sinceLastSeen Timer_init ''tick'' 5 5)) False)
          ''tick'' 100 100) = 95"
  by (simp add: sinceLastSeen_def sinceLastSeen_spec_def start_def stop_def getDuration_def
      store_eq Let_def setStatus_def Timer_init_def)

subsection \<open>Durations\<close>

lemma reach_unmeasured:
  assumes "reach (\<lambda>n. n \<noteq> name) s"
  shows "durationMap s name = None"
  using assms
proof (induction rule: reach.induct)
  case r_init
  show ?case by (simp add: Timer_init_def)
next
  case (r_stop s n t)
  with stop_frame(2) [of n name s t] show ?case by simp
next
  case (r_wait s n d t s' r)
  with wait_frame(2) [of s n d t s' r name] show ?case by simp
next
  case (r_setDuration s n v)
  then show ?case by (simp add: setDuration_def store_eq)
next
  case (r_sinceLastSeen s n t1 t2)
  with sinceLastSeen_frame(2) [of n name s t1 t2] show ?case by simp
next
  case (r_rshift_value s tid d s')
  then show ?case by (auto simp: op_rshift_value_def split: if_splits)
next
  case (r_rshift_name s n tid t s' r)
  with rshift_name_frame(2) [of s tid n t s' r name] show ?case by simp
qed (simp_all add: setDebug_def setStatus_def start_frame op_lshift_def setMasterClock_def)

text \<open>
  Claim C9. In every state that the timer reaches without completing a measurement of
  \<open>name\<close> and without setting a duration for it, \<open>getDuration\<close> returns 0, a value and
  not a fault. The method is \<^verbatim>\<open>const\<close> and looks the name up with \<^verbatim>\<open>find\<close>, so it is a
  function of the timer that returns no new timer; the duration map has no entry for
  the name before the query, and the query adds none.
\<close>

theorem getDuration_unknown:
  assumes "reach (\<lambda>n. n \<noteq> name) s"
  shows "getDuration s name = 0 \<and> durationMap s name = None"
  using reach_unmeasured [OF assms] by (simp add: getDuration_def)

theorem getDuration_unknown_witness:
  "reach (\<lambda>n. n \<noteq> ''render'')
     (stop (stop (start (start Timer_init ''frame'' 20) ''frame'' 20) ''frame'' 50) ''render'' 60) \<and>
   getDuration
     (stop (stop (start (start Timer_init ''frame'' 20) ''frame'' 20) ''frame'' 50) ''render'' 60)
     ''render'' = 0 \<and>
   getDuration
     (stop (stop (start (start Timer_init ''frame'' 20) ''frame'' 20) ''frame'' 50) ''render'' 60)
     ''frame'' = 30"
proof -
  let ?s = "stop (start (start Timer_init ''frame'' 20) ''frame'' 20) ''frame'' 50"
  have "reach (\<lambda>n. n \<noteq> ''render'') ?s"
    by (rule r_stop, rule r_start, rule r_start, rule r_init) simp
  moreover have "\<not> completes ?s ''render''"
    by (simp add: completes_def stop_def start_def store_eq Timer_init_def)
  ultimately have r: "reach (\<lambda>n. n \<noteq> ''render'') (stop ?s ''render'' 60)"
    by (simp add: r_stop)
  have "getDuration (stop ?s ''render'' 60) ''frame'' = 30"
    by (simp add: getDuration_def stop_def start_def store_eq Timer_init_def)
  with r getDuration_unknown [OF r] show ?thesis by simp
qed

subsection \<open>The enable flag\<close>

text \<open>
  Claim C7. When the enable flag is false, \<open>start\<close>, \<open>stop\<close> and \<open>waitUntilDuration\<close>
  return the timer as it was, for every name, clock reading and target: neither map
  changes, so every duration stays at its last recorded value. \<open>waitUntilDuration\<close>
  returns false before it reaches \<^verbatim>\<open>nanosleep\<close> (the call is \<open>None\<close>), so no sleep occurs.
\<close>

theorem disabled_noop:
  assumes "\<not> enabled s"
  shows "start s name t = s \<and> stop s name t = s \<and>
         waitUntilDuration s name d t = Inr (s, False, None)"
  using assms by (simp add: start_def stop_def waitUntilDuration_def)

theorem disabled_noop_witness:
  "\<not> enabled (setStatus (setDuration Timer_init ''frame'' 16000) False) \<and>
   start (setStatus (setDuration Timer_init ''frame'' 16000) False) ''frame'' 40 =
     setStatus (setDuration Timer_init ''frame'' 16000) False \<and>
   stop (setStatus (setDuration Timer_init ''frame'' 16000) False) ''frame'' 40 =
     setStatus (setDuration Timer_init ''frame'' 16000) False \<and>
   waitUntilDuration (setStatus (setDuration Timer_init ''frame'' 16000) False) ''frame'' 33000 40 =
     Inr (setStatus (setDuration Timer_init ''frame'' 16000) False, False, None) \<and>
   getDuration (setStatus (setDuration Timer_init ''frame'' 16000) False) ''frame'' = 16000"
proof -
  have off: "\<not> enabled (setStatus (setDuration Timer_init ''frame'' 16000) False)"
    by (simp add: setStatus_def)
  have "getDuration (setStatus (setDuration Timer_init ''frame'' 16000) False) ''frame'' = 16000"
    by (simp add: getDuration_def setStatus_def setDuration_def store_eq)
  with off disabled_noop [OF off, of "''frame''" 40 33000] show ?thesis by simp
qed

text \<open>
  Claim C10. \<open>setDuration\<close> and \<open>getDuration\<close> do not read the enable flag: in every
  state, and so in a state disabled by \<open>setStatus s False\<close>, \<open>setDuration\<close> stores the
  value and \<open>getDuration\<close> returns exactly that value, while \<open>start\<close>, \<open>stop\<close> and
  \<open>waitUntilDuration\<close> leave the disabled state as it is.
\<close>

theorem setDuration_getDuration:
  "getDuration (setDuration s name v) name = v \<and>
   getDuration (setDuration (setStatus s False) name v) name = v \<and>
   enabled (setDuration (setStatus s False) name v) = False \<and>
   start (setStatus s False) name t = setStatus s False \<and>
   stop (setStatus s False) name t = setStatus s False \<and>
   waitUntilDuration (setStatus s False) name d t = Inr (setStatus s False, False, None)"
  by (simp add: getDuration_def setDuration_def setStatus_def store_eq start_def stop_def
      waitUntilDuration_def)

theorem setDuration_getDuration_witness:
  "getDuration (setDuration (setStatus Timer_init False) ''peer'' 250) ''peer'' = 250 \<and>
   enabled (setDuration (setStatus Timer_init False) ''peer'' 250) = False \<and>
   timeMap (start (setStatus Timer_init False) ''peer'' 7) ''peer'' = None"
  using setDuration_getDuration [of Timer_init "''peer''" 250 7 0]
  by (simp add: setStatus_def Timer_init_def)

subsection \<open>The stream operators\<close>

text \<open>
  \<open>waitUntilDuration\<close> neither reads nor writes the three members of the hand-off slot
  that the consuming operator resets.
\<close>

lemma wait_slot:
  "waitUntilDuration (s\<lparr>isDurationSet := a, currentDuration := b, timerMutex := c\<rparr>) name d t =
     (case waitUntilDuration s name d t of
        Inl f \<Rightarrow> Inl f
      | Inr (sw, r) \<Rightarrow> Inr (sw\<lparr>isDurationSet := a, currentDuration := b, timerMutex := c\<rparr>, r))"
  by (simp add: waitUntilDuration_def Let_def split: option.split)

text \<open>The publishing operator returns exactly when it finds the lock free.\<close>

lemma op_rshift_value_returns:
  "(\<exists>s1. op_rshift_value s a d = Some s1) \<longleftrightarrow> \<not> timerMutex s"
  by (simp add: op_rshift_value_def)

text \<open>
  Claim C3. Let thread \<open>a\<close> publish the value \<open>d\<close>, the call returning with the state
  \<open>s1\<close>: the slot is set, holds \<open>d\<close> and belongs to \<open>a\<close>. When \<open>d\<close> is positive, the
  consuming operator called by \<open>a\<close> gives what \<open>waitUntilDuration\<close> gives for the name and
  \<open>d\<close> in that state (the same returned flag, the same call of \<^verbatim>\<open>nanosleep\<close>, the same
  maps) with the pending flag cleared, the value reset and the lock released. Called by
  another thread \<open>b\<close>, it is \<open>stop\<close>: it returns false without a call of \<^verbatim>\<open>nanosleep\<close>, and
  the pending flag, the published value, its owner and the lock stay as the publication
  left them.
\<close>

theorem handoff_protocol:
  assumes "op_rshift_value s a d = Some s1"
  shows "isDurationSet s1 \<and> currentDuration s1 = d \<and> durationThreadId s1 = Thread a \<and>
     (0 < d \<longrightarrow>
        op_rshift_name s1 a name t =
          (case waitUntilDuration s1 name d t of
             Inl f \<Rightarrow> Inl f
           | Inr (sw, overtime, call) \<Rightarrow>
               Inr (sw\<lparr>isDurationSet := False, currentDuration := 0, timerMutex := False\<rparr>,
                    overtime, call))) \<and>
     (b \<noteq> a \<longrightarrow>
        op_rshift_name s1 b name t = Inr (stop s1 name t, False, None) \<and>
        isDurationSet (stop s1 name t) \<and> currentDuration (stop s1 name t) = d \<and>
        durationThreadId (stop s1 name t) = Thread a \<and> timerMutex (stop s1 name t))"
proof -
  from assms have s1: "s1 = s\<lparr>timerMutex := True, currentDuration := d,
      durationThreadId := Thread a, isDurationSet := True\<rparr>"
    by (simp add: op_rshift_value_def split: if_splits)
  have slot: "isDurationSet s1 \<and> currentDuration s1 = d \<and> durationThreadId s1 = Thread a"
    by (simp add: s1)
  have same: "op_rshift_name s1 a name t =
      (case waitUntilDuration s1 name d t of
         Inl f \<Rightarrow> Inl f
       | Inr (sw, overtime, call) \<Rightarrow>
           Inr (sw\<lparr>isDurationSet := False, currentDuration := 0, timerMutex := False\<rparr>,
                overtime, call))" if "0 < d"
    using that slot
      wait_slot [where s = s1 and a = False and b = 0 and c = False and name = name
        and d = d and t = t]
    by (simp add: op_rshift_name_def split: sum.split prod.split)
  have other: "op_rshift_name s1 b name t = Inr (stop s1 name t, False, None)" if "b \<noteq> a"
    using that slot by (simp add: op_rshift_name_def)
  have kept: "isDurationSet (stop s1 name t) \<and> currentDuration (stop s1 name t) = d \<and>
      durationThreadId (stop s1 name t) = Thread a \<and> timerMutex (stop s1 name t)"
    by (simp add: s1 stop_def split: option.split)
  from slot same other kept show ?thesis by simp
qed

theorem handoff_protocol_witness:
  "op_rshift_value (start Timer_init ''frame'' 100) 1 16000 =
     Some ((start Timer_init ''frame'' 100)\<lparr>timerMutex := True, currentDuration := 16000,
        durationThreadId := Thread 1, isDurationSet := True\<rparr>) \<and>
   (0::ullong) < 16000 \<and> (2::nat) \<noteq> 1 \<and>
   op_rshift_name ((start Timer_init ''frame'' 100)\<lparr>timerMutex := True, currentDuration := 16000,
        durationThreadId := Thread 1, isDurationSet := True\<rparr>) 1 ''frame'' 4100 =
     Inr ((start Timer_init ''frame'' 100)\<lparr>durationMap := [''frame'' \<mapsto> 16000],
        timerMutex := False, currentDuration := 0,
        durationThreadId := Thread 1, isDurationSet := False\<rparr>, False,
        Some \<lparr>tv_sec = 0, tv_nsec = 12000000\<rparr>) \<and>
   op_rshift_name ((start Timer_init ''frame'' 100)\<lparr>timerMutex := True, currentDuration := 16000,
        durationThreadId := Thread 1, isDurationSet := True\<rparr>) 2 ''frame'' 4100 =
     Inr ((start Timer_init ''frame'' 100)\<lparr>durationMap := [''frame'' \<mapsto> 4000],
        timerMutex := True, currentDuration := 16000,
        durationThreadId := Thread 1, isDurationSet := True\<rparr>, False, None)"
proof -
  let ?s = "start Timer_init ''frame'' 100"
  let ?s1 = "?s\<lparr>timerMutex := True, currentDuration := 16000,
        durationThreadId := Thread 1, isDurationSet := True\<rparr>"
  have p: "op_rshift_value ?s 1 16000 = Some ?s1"
    by (simp add: op_rshift_value_def start_def Timer_init_def)
  have r: "round53 12000 = 12000" "round53 12000000 = 12000000"
    by (simp_all add: round53_exact)
  have w: "waitUntilDuration ?s1 ''frame'' 16000 4100 =
      Inr (?s1\<lparr>durationMap := [''frame'' \<mapsto> 16000]\<rparr>, False,
        Some \<lparr>tv_sec = 0, tv_nsec = 12000000\<rparr>)"
    by (simp add: waitUntilDuration_def start_def Timer_init_def store_eq Let_def
        ull_to_double_def double_mul_def double_to_long_def r)
  have st: "stop ?s1 ''frame'' 4100 = ?s1\<lparr>durationMap := [''frame'' \<mapsto> 4000]\<rparr>"
    by (simp add: stop_def start_def Timer_init_def store_eq)
  from p w st handoff_protocol [OF p, of "''frame''" 4100 2] show ?thesis by simp
qed

text \<open>
  Claim C4, amended. \<^verbatim>\<open>operator<<\<close> with a name is \<open>start\<close> of the name followed by
  resetting the value of the hand-off slot to 0. It does not write the pending flag: the
  flag, the owner of the slot and the lock are after the call what they were before it.
\<close>

theorem op_lshift_resets_value:
  "op_lshift s name t = (start s name t)\<lparr>currentDuration := 0\<rparr> \<and>
   timeMap (op_lshift s name t) = timeMap (start s name t) \<and>
   durationMap (op_lshift s name t) = durationMap s \<and>
   currentDuration (op_lshift s name t) = 0 \<and>
   isDurationSet (op_lshift s name t) = isDurationSet s \<and>
   durationThreadId (op_lshift s name t) = durationThreadId s \<and>
   timerMutex (op_lshift s name t) = timerMutex s"
  by (simp add: op_lshift_def start_def)

theorem op_lshift_resets_value_witness:
  "timeMap (op_lshift Timer_init ''frame'' 7) ''frame'' = Some 7 \<and>
   currentDuration (op_lshift (Timer_init\<lparr>currentDuration := 9\<rparr>) ''frame'' 7) = 0 \<and>
   isDurationSet (op_lshift Timer_init ''frame'' 7) = False"
  using op_lshift_resets_value [of Timer_init "''frame''" 7]
    op_lshift_resets_value [of "Timer_init\<lparr>currentDuration := 9\<rparr>" "''frame''" 7]
  by (simp add: start_def store_eq Timer_init_def)

text \<open>
  The claim as it is written fails after a publication: thread 1 publishes 16000, the
  pending flag is set, and after \<^verbatim>\<open>operator<<\<close> it is still set, with the value at 0.
\<close>

theorem op_lshift_keeps_flag:
  "isDurationSet (the (op_rshift_value Timer_init 1 16000)) \<and>
   isDurationSet (op_lshift (the (op_rshift_value Timer_init 1 16000)) ''frame'' 0) \<and>
   currentDuration (op_lshift (the (op_rshift_value Timer_init 1 16000)) ''frame'' 0) = 0"
  by (simp add: op_lshift_def op_rshift_value_def start_def Timer_init_def)

subsection \<open>The master clock\<close>

lemma reach_clock_length:
  assumes "reach W s"
  shows "length (clock s) = 0 \<or> length (clock s) = 8"
  using assms
proof (induction rule: reach.induct)
  case r_init
  show ?case by (simp add: Timer_init_def)
next
  case (r_wait s n d t s' r)
  with wait_frame(1) [of s n d t s' r] show ?case by simp
next
  case (r_rshift_value s tid d s')
  then show ?case by (auto simp: op_rshift_value_def split: if_splits)
next
  case (r_rshift_name s n tid t s' r)
  with rshift_name_frame(1) [of s tid n t s' r] show ?case by simp
next
  case (r_setMasterClock s c)
  then show ?case by (simp add: setMasterClock_def)
qed (simp_all add: setDebug_def setStatus_def start_frame stop_frame setDuration_def
      sinceLastSeen_frame op_lshift_def)

text \<open>
  Claim C5. \<open>setMasterClock\<close> with a sequence whose length is not 8 returns the timer as
  it was, so a stored clock stays and an unset clock stays unset; and in every state the
  timer can reach the stored clock has length 0 or length 8.
\<close>

theorem setMasterClock_length:
  "(length c \<noteq> 8 \<longrightarrow> setMasterClock s c = s) \<and>
   (reach W s' \<longrightarrow> length (clock s') = 0 \<or> length (clock s') = 8)"
  using reach_clock_length [of W s'] by (auto simp: setMasterClock_def)

theorem setMasterClock_length_witness:
  "length [1, 2, 3 :: Value] \<noteq> 8 \<and>
   setMasterClock (setMasterClock Timer_init [0, 0, 1, 2, 3, 4, 60, 0]) [1, 2, 3] =
     setMasterClock Timer_init [0, 0, 1, 2, 3, 4, 60, 0] \<and>
   clock (setMasterClock (setMasterClock Timer_init [0, 0, 1, 2, 3, 4, 60, 0]) [1, 2, 3]) =
     [0, 0, 1, 2, 3, 4, 60, 0] \<and>
   setMasterClock Timer_init [1, 2, 3] = Timer_init \<and>
   reach (\<lambda>n. True) (setMasterClock Timer_init [0, 0, 1, 2, 3, 4, 60, 0]) \<and>
   length (clock (setMasterClock Timer_init [0, 0, 1, 2, 3, 4, 60, 0])) = 8"
proof -
  have r: "reach (\<lambda>n. True) (setMasterClock Timer_init [0, 0, 1, 2, 3, 4, 60, 0])"
    by (rule r_setMasterClock) (rule r_init)
  have c: "clock (setMasterClock Timer_init [0, 0, 1, 2, 3, 4, 60, 0]) = [0, 0, 1, 2, 3, 4, 60, 0]"
    by (simp add: setMasterClock_def)
  from r c
    setMasterClock_length [of "[1, 2, 3]" "setMasterClock Timer_init [0, 0, 1, 2, 3, 4, 60, 0]"
      "\<lambda>n. True" "setMasterClock Timer_init [0, 0, 1, 2, 3, 4, 60, 0]"]
    setMasterClock_length [of "[1, 2, 3]" Timer_init "\<lambda>n. True" Timer_init]
  show ?thesis by simp
qed

text \<open>
  Claim C6. When the stored sequence is empty, the copying getter returns false and its
  output argument is what it was before the call, and the decoding getter sets
  \<open>paused\<close> to true and returns false, leaving \<open>time\<close> as it was, for every unit \<open>T\<close>.
\<close>

theorem getMasterClock_unset:
  assumes "clock s = []"
  shows "getMasterClock s out = (out, False) \<and>
         getMasterClockT T s time paused = Inr (time, True, False)"
  using assms by (simp add: getMasterClock_def getMasterClockT_def)

theorem getMasterClock_unset_witness:
  "clock Timer_init = [] \<and>
   getMasterClock Timer_init [1, 2, 3] = ([1, 2, 3], False) \<and>
   getMasterClockT Microseconds Timer_init 42 False = Inr (42, True, False)"
proof -
  have e: "clock Timer_init = []" by (simp add: Timer_init_def)
  from e getMasterClock_unset [OF e, of "[1, 2, 3]" Microseconds 42 False] show ?thesis by simp
qed

text \<open>
  The fields are 32-bit, so the sum of the frame count stays within 64 bits at every
  step, and on a clock of eight fields it is the frame count of the specification.
\<close>

lemma as_int_bounds: "- (2 ^ 31) \<le> as_int v" "as_int v < 2 ^ 31"
  using sint_ge [of v] sint_lt [of v] by (simp_all add: as_int_def)

lemma frames_in_int64:
  fixes c :: Values
  defines "d \<equiv> as_int (c ! 2) * 24"
  defines "h \<equiv> as_int (c ! 3) + d"
  defines "m \<equiv> as_int (c ! 4) + h * 60"
  defines "sec \<equiv> as_int (c ! 5) + m * 60"
  shows "in_int64 d \<and> in_int64 h \<and> in_int64 (h * 60) \<and> in_int64 m \<and> in_int64 (m * 60) \<and>
         in_int64 sec \<and> in_int64 (sec * 120) \<and> in_int64 (frames c) \<and>
         frames c = as_int (c ! 6) + sec * 120"
  using as_int_bounds [of "c ! 6"] as_int_bounds [of "c ! 5"] as_int_bounds [of "c ! 4"]
    as_int_bounds [of "c ! 3"] as_int_bounds [of "c ! 2"]
  unfolding d_def h_def m_def sec_def by (simp add: frames_def in_int64_def)

lemma frames_spec:
  "frames [f0, f1, f2, f3, f4, f5, f6, f7] =
     frame_count_spec (as_int f2) (as_int f3) (as_int f4) (as_int f5) (as_int f6)"
  by (simp add: frames_def frame_count_spec_def)

text \<open>
  Claim C1, amended. For every stored clock of eight fields whose frame count
  \<open>fr = field6 + 120 * (field5 + 60 * (field4 + 60 * (field3 + 24 * field2)))\<close> has a
  product \<open>fr * 1000000\<close> within the signed 64-bit range, the microseconds are
  \<open>us = fr * 1000000 / 120\<close>, and for the units microseconds, milliseconds, seconds,
  minutes and hours the decoding getter returns true, \<open>paused\<close> is whether field 7 is
  not zero, and \<open>time\<close> is \<open>us\<close> divided by 1, 1000, 1000000, 60000000 and 3600000000,
  truncating. For the unit nanoseconds it does the same with \<open>time = us * 1000\<close> when
  that product is within the signed 64-bit range too, and overflows otherwise.
\<close>

theorem getMasterClockT_decodes:
  assumes "clock s = [f0, f1, f2, f3, f4, f5, f6, f7]"
    and "fr = frame_count_spec (as_int f2) (as_int f3) (as_int f4) (as_int f5) (as_int f6)"
    and "in_int64 (fr * 1000000)"
  shows "getMasterClockT Microseconds s time paused =
           Inr (microseconds_spec fr, as_int f7 \<noteq> 0, True) \<and>
         getMasterClockT Milliseconds s time paused =
           Inr (cdiv (microseconds_spec fr) 1000, as_int f7 \<noteq> 0, True) \<and>
         getMasterClockT Seconds s time paused =
           Inr (cdiv (microseconds_spec fr) 1000000, as_int f7 \<noteq> 0, True) \<and>
         getMasterClockT Minutes s time paused =
           Inr (cdiv (microseconds_spec fr) 60000000, as_int f7 \<noteq> 0, True) \<and>
         getMasterClockT Hours s time paused =
           Inr (cdiv (microseconds_spec fr) 3600000000, as_int f7 \<noteq> 0, True) \<and>
         getMasterClockT Nanoseconds s time paused =
           (if in_int64 (microseconds_spec fr * 1000)
            then Inr (microseconds_spec fr * 1000, as_int f7 \<noteq> 0, True)
            else Inl SignedOverflow)"
  using assms
  by (simp add: getMasterClockT_def frames_spec checked_def microseconds_spec_def)

text \<open>
  The clock of the specification's example: 11254140 frames, 93784500000 microseconds,
  not paused.
\<close>

theorem getMasterClockT_decodes_witness:
  "clock (setMasterClock Timer_init [0, 0, 1, 2, 3, 4, 60, 0]) = [0, 0, 1, 2, 3, 4, 60, 0] \<and>
   frame_count_spec (as_int 1) (as_int 2) (as_int 3) (as_int 4) (as_int 60) = 11254140 \<and>
   in_int64 (11254140 * 1000000) \<and>
   getMasterClockT Microseconds (setMasterClock Timer_init [0, 0, 1, 2, 3, 4, 60, 0]) 0 True =
     Inr ((60 + 120 * (4 + 60 * (3 + 60 * (2 + 24 * 1)))) * 1000000 div 120, False, True) \<and>
   getMasterClockT Milliseconds (setMasterClock Timer_init [0, 0, 1, 2, 3, 4, 60, 0]) 0 True =
     Inr (93784500, False, True) \<and>
   getMasterClockT Seconds (setMasterClock Timer_init [0, 0, 1, 2, 3, 4, 60, 0]) 0 True =
     Inr (93784, False, True) \<and>
   getMasterClockT Minutes (setMasterClock Timer_init [0, 0, 1, 2, 3, 4, 60, 0]) 0 True =
     Inr (1563, False, True) \<and>
   getMasterClockT Hours (setMasterClock Timer_init [0, 0, 1, 2, 3, 4, 60, 0]) 0 True =
     Inr (26, False, True) \<and>
   getMasterClockT Nanoseconds (setMasterClock Timer_init [0, 0, 1, 2, 3, 4, 60, 0]) 0 True =
     Inr (93784500000000, False, True)"
proof -
  have c: "clock (setMasterClock Timer_init [0, 0, 1, 2, 3, 4, 60, 0]) = [0, 0, 1, 2, 3, 4, 60, 0]"
    by (simp add: setMasterClock_def)
  have f: "11254140 = frame_count_spec (as_int 1) (as_int 2) (as_int 3) (as_int 4) (as_int 60)"
    by (simp add: frame_count_spec_def as_int_def)
  have r: "in_int64 (11254140 * 1000000)"
    by (simp add: in_int64_def)
  have z: "as_int 0 = 0"
    by (simp add: as_int_def)
  have u: "microseconds_spec 11254140 = 93784500000"
    by (simp add: microseconds_spec_def cdiv_def)
  have n: "in_int64 93784500000000"
    by (simp add: in_int64_def)
  from c f [symmetric] r getMasterClockT_decodes [OF c f r, of 0 True]
  show ?thesis by (simp add: u n cdiv_def z)
qed

text \<open>
  The nanoseconds overflow on clocks whose microseconds do not: with 200000 days the
  microseconds are 17280000000000000, within the range, and their product with 1000 is
  not.
\<close>

lemma getMasterClockT_nanoseconds_overflow:
  "getMasterClockT Microseconds (setMasterClock Timer_init [0, 0, 200000, 0, 0, 0, 0, 0]) 0 False =
     Inr (17280000000000000, False, True) \<and>
   getMasterClockT Nanoseconds (setMasterClock Timer_init [0, 0, 200000, 0, 0, 0, 0, 0]) 0 False =
     Inl SignedOverflow"
  by (simp add: getMasterClockT_def setMasterClock_def frames_def checked_def in_int64_def
      as_int_def cdiv_def)

text \<open>
  The claim as it is written fails on a stored clock with a large day count. With
  2147483647 days the frame count is 22265110452096000, its product with 1000000 is
  beyond \<open>2 ^ 63\<close>, and the multiplication in \<^verbatim>\<open>int64_t\<close> overflows: the getter does not
  return the microseconds of the formula, which no \<^verbatim>\<open>int64_t\<close> can hold.
\<close>

theorem getMasterClockT_overflow:
  "getMasterClockT Microseconds
     (setMasterClock Timer_init [0, 0, 2147483647, 0, 0, 0, 0, 0]) 0 False =
     Inl SignedOverflow \<and>
   frame_count_spec (as_int 2147483647) (as_int 0) (as_int 0) (as_int 0) (as_int 0) =
     22265110452096000 \<and>
   microseconds_spec 22265110452096000 = 185542587100800000000 \<and>
   \<not> in_int64 185542587100800000000"
  by (simp add: getMasterClockT_def setMasterClock_def frames_def checked_def in_int64_def
      as_int_def frame_count_spec_def microseconds_spec_def cdiv_def)

end
